theory Spec2Isabelle
  imports Complex_Main "HOL-Library.Monad_Syntax"
begin

section \<open>The ephemeris provider\<close>

text \<open>
  The program asks the \<^verbatim>\<open>ephem\<close> library for rising and setting instants, full moons,
  equinoxes, solstices and azimuths. The library is not part of the program, so it is a
  parameter of every function that calls it. Instants are \<^verbatim>\<open>ephem.Date\<close> values
  (a count of days, a float in the source); floats are idealised as real numbers
  throughout. A rising or setting query can raise (a body that never rises or sets), which
  is the value \<open>None\<close>.
\<close>

datatype body = Sun | Moon

record observer =
  date :: real
  obs_lat :: real
  obs_lon :: real
  elevation :: real

record ephemeris =
  previous_rising :: "observer \<Rightarrow> body \<Rightarrow> real option"
  next_rising :: "observer \<Rightarrow> body \<Rightarrow> real option"
  previous_setting :: "observer \<Rightarrow> body \<Rightarrow> real option"
  next_setting :: "observer \<Rightarrow> body \<Rightarrow> real option"
  compute_az :: "body \<Rightarrow> observer \<Rightarrow> real"
  previous_full_moon :: "real \<Rightarrow> real"
  next_full_moon :: "real \<Rightarrow> real"
  next_equinox :: "real \<Rightarrow> real"
  next_solstice :: "real \<Rightarrow> real"
  Date_jan1 :: "int \<Rightarrow> real"

text \<open>\<^verbatim>\<open>ephem.degree\<close>: one degree in radians.\<close>

definition degree :: real where
  "degree = pi / 180"

section \<open>Rise and set azimuths nearest a date\<close>

text \<open>
  \<^verbatim>\<open>nearest_time(targettime, t1, t2)\<close>: the source returns \<open>d1\<close> or \<open>d2\<close>, the
  absolute differences, not \<open>t1\<close> or \<open>t2\<close>.
\<close>

definition nearest_time :: "real \<Rightarrow> real \<Rightarrow> real \<Rightarrow> real" where
  "nearest_time targettime t1 t2 =
     (let d1 = \<bar>targettime - t1\<bar>;
          d2 = \<bar>targettime - t2\<bar>
      in if d1 \<le> d2 then d1 else d2)"

text \<open>
  \<^verbatim>\<open>find_rise_set(observer, obj, d=None)\<close>. The observer is mutated by the source, so
  the model returns it beside the result dictionary (an association list in insertion
  order). \<^verbatim>\<open>if d:\<close> is false for \<open>None\<close> and for a zero date.
\<close>

definition find_rise_set ::
  "ephemeris \<Rightarrow> observer \<Rightarrow> body \<Rightarrow> real option \<Rightarrow> ((string \<times> real) list \<times> observer) option" where
  "find_rise_set e observer obj d = do {
     let observer = (case d of None \<Rightarrow> observer
                     | Some t \<Rightarrow> if t = 0 then observer else observer\<lparr>date := t\<rparr>);
     prevrise \<leftarrow> previous_rising e observer obj;
     nextrise \<leftarrow> next_rising e observer obj;
     prevset \<leftarrow> previous_setting e observer obj;
     nextset \<leftarrow> next_setting e observer obj;
     let risetime = nearest_time (date observer) prevrise nextrise;
     let observer = observer\<lparr>date := risetime\<rparr>;
     let rise_az = compute_az e obj observer;
     let settime = nearest_time (date observer) prevset nextset;
     let observer = observer\<lparr>date := settime\<rparr>;
     let set_az = compute_az e obj observer;
     Some ([(''rise'', rise_az / degree), (''set'', set_az / degree)], observer)
   }"

text \<open>
  \<^verbatim>\<open>find_azimuths(observer)\<close>. \<open>now\<close> is what \<^verbatim>\<open>ephem.now()\<close> returns at this
  call: the wall clock.
\<close>

definition find_azimuths ::
  "ephemeris \<Rightarrow> real \<Rightarrow> observer \<Rightarrow>
     ((string \<times> (string \<times> real) list) list \<times> observer) option" where
  "find_azimuths e now observer = do {
     (sun, observer) \<leftarrow> find_rise_set e observer Sun None;
     let lastfull = previous_full_moon e (date observer);
     let nextfull = next_full_moon e (date observer);
     let observer = (if now - lastfull > nextfull - now
                     then observer\<lparr>date := nextfull\<rparr>
                     else observer\<lparr>date := lastfull\<rparr>);
     (moon, observer) \<leftarrow> find_rise_set e observer Moon None;
     Some ([(''sun'', sun), (''full moon'', moon)], observer)
   }"

section \<open>Bearing between two waypoints\<close>

text \<open>A waypoint is the list \<^verbatim>\<open>[name, lat, lon, ele]\<close>.\<close>

record waypoint =
  wp_name :: string
  wp_lat :: real
  wp_lon :: real
  wp_ele :: real

text \<open>\<^verbatim>\<open>math.atan2(y, x)\<close> on real numbers (no signed zeros).\<close>

definition atan2 :: "real \<Rightarrow> real \<Rightarrow> real" where
  "atan2 y x =
     (if 0 < x then arctan (y / x)
      else if x < 0 then (if 0 \<le> y then arctan (y / x) + pi else arctan (y / x) - pi)
      else if 0 < y then pi / 2
      else if y < 0 then - (pi / 2)
      else 0)"

text \<open>Python's \<^verbatim>\<open>%\<close> on floats: the result has the sign of the divisor.\<close>

definition pymod :: "real \<Rightarrow> real \<Rightarrow> real" where
  "pymod a b = a - b * of_int \<lfloor>a / b\<rfloor>"

definition angle_between :: "waypoint \<Rightarrow> waypoint \<Rightarrow> real" where
  "angle_between wp1 wp2 =
     (let lat1 = wp_lat wp1; lon1 = wp_lon wp1;
          lat2 = wp_lat wp2; lon2 = wp_lon wp2;
          dlon = lon2 - lon1;
          y = sin dlon * cos lat2;
          x = cos lat1 * sin lat2 - sin lat1 * cos lat2 * cos dlon
      in pymod (360 - atan2 y x / degree) 360)"

section \<open>Matching bearings against the azimuth table\<close>

type_synonym azimuth_table = "(string \<times> (string \<times> (string \<times> real) list) list) list"

definition DEGREESLOP :: real where
  "DEGREESLOP = 2"

text \<open>
  The three inner loops of \<^verbatim>\<open>find_alignments\<close> (over season, body and event) for one
  pair of waypoint names and its bearing; \<open>matches\<close> is the list appended to.
\<close>

definition match_angle ::
  "azimuth_table \<Rightarrow> string \<Rightarrow> string \<Rightarrow> real \<Rightarrow> string list list \<Rightarrow> string list list" where
  "match_angle azimuths name1 name2 angle matches =
     fold (\<lambda>(season, bodies).
       fold (\<lambda>(body, events).
         fold (\<lambda>(event, az) matches.
           if \<bar>az - angle\<bar> < DEGREESLOP
           then matches @ [[name1, name2, season @ '' '' @ body @ event]]
           else matches) events) bodies) azimuths matches"

text \<open>The two outer loops, over the waypoints, skipping a pair of equal waypoints.\<close>

definition match_waypoints :: "azimuth_table \<Rightarrow> waypoint list \<Rightarrow> string list list" where
  "match_waypoints azimuths waypoints =
     fold (\<lambda>wp1.
       fold (\<lambda>wp2 matches.
         if wp1 = wp2 then matches
         else match_angle azimuths (wp_name wp1) (wp_name wp2) (angle_between wp1 wp2) matches)
       waypoints) waypoints []"

text \<open>
  Lines 92 to 106 of \<^verbatim>\<open>find_alignments\<close>: the azimuth table of the four seasons.
  \<open>clock k\<close> is the wall clock at the \<open>k\<close>-th call of \<^verbatim>\<open>find_azimuths\<close> and
  \<open>current_year\<close> is \<^verbatim>\<open>datetime.now().year\<close>. Beside the table and the observer, the
  model returns the four instants assigned to \<^verbatim>\<open>observer.date\<close> on lines 96, 99, 102
  and 105, in that order.
\<close>

definition seasonal_azimuths ::
  "ephemeris \<Rightarrow> (nat \<Rightarrow> real) \<Rightarrow> int \<Rightarrow> observer \<Rightarrow> int option \<Rightarrow>
     (azimuth_table \<times> real list \<times> observer) option" where
  "seasonal_azimuths e clock current_year observer year = do {
     let year = (case year of None \<Rightarrow> current_year
                 | Some y \<Rightarrow> if y = 0 then current_year else y);
     let start_date = Date_jan1 e year;
     let observer = observer\<lparr>date := next_equinox e start_date\<rparr>;
     let t1 = date observer;
     (vernal, observer) \<leftarrow> find_azimuths e (clock 0) observer;
     let observer = observer\<lparr>date := next_solstice e (date observer)\<rparr>;
     let t2 = date observer;
     (summer, observer) \<leftarrow> find_azimuths e (clock 1) observer;
     let observer = observer\<lparr>date := next_equinox e (date observer)\<rparr>;
     let t3 = date observer;
     (autumnal, observer) \<leftarrow> find_azimuths e (clock 2) observer;
     let observer = observer\<lparr>date := next_solstice e (date observer)\<rparr>;
     let t4 = date observer;
     (winter, observer) \<leftarrow> find_azimuths e (clock 3) observer;
     Some ([(''vernal equinox'', vernal), (''summer solstice'', summer),
            (''autumnal equinox'', autumnal), (''winter solstice'', winter)],
           [t1, t2, t3, t4], observer)
   }"

text \<open>\<^verbatim>\<open>find_alignments\<close>: the matches it prints, and the observer as it leaves it.\<close>

definition find_alignments ::
  "ephemeris \<Rightarrow> (nat \<Rightarrow> real) \<Rightarrow> int \<Rightarrow> observer \<Rightarrow> waypoint list \<Rightarrow> int option \<Rightarrow>
     (string list list \<times> observer) option" where
  "find_alignments e clock current_year observer waypoints year = do {
     (azimuths, instants, observer) \<leftarrow> seasonal_azimuths e clock current_year observer year;
     Some (match_waypoints azimuths waypoints, observer)
   }"

section \<open>Reading waypoints from a GPX document\<close>

text \<open>
  The part of a \<^verbatim>\<open>xml.dom.minidom\<close> tree the loader reads: elements with their
  attributes and children, text nodes, and every other kind of node (comments, CDATA
  sections, processing instructions).
\<close>

datatype node =
    Document "node list"
  | Element string "(string \<times> string) list" "node list"
  | Text string
  | OtherNode

fun childNodes :: "node \<Rightarrow> node list" where
  "childNodes (Document cs) = cs"
| "childNodes (Element t as cs) = cs"
| "childNodes (Text d) = []"
| "childNodes OtherNode = []"

fun tag_matches :: "string \<Rightarrow> node \<Rightarrow> bool" where
  "tag_matches name (Element t as cs) = (name = ''*'' \<or> t = name)"
| "tag_matches name (Document cs) = False"
| "tag_matches name (Text d) = False"
| "tag_matches name OtherNode = False"

text \<open>
  \<^verbatim>\<open>getElementsByTagName\<close>: every descendant element with the tag, in document order
  (the node itself is not a candidate).
\<close>

fun getElementsByTagName :: "node \<Rightarrow> string \<Rightarrow> node list" where
  "getElementsByTagName (Document cs) name =
     concat (map (\<lambda>c. (if tag_matches name c then [c] else []) @ getElementsByTagName c name) cs)"
| "getElementsByTagName (Element t as cs) name =
     concat (map (\<lambda>c. (if tag_matches name c then [c] else []) @ getElementsByTagName c name) cs)"
| "getElementsByTagName (Text d) name = []"
| "getElementsByTagName OtherNode name = []"

text \<open>\<^verbatim>\<open>getAttribute\<close>: the empty string when the attribute is absent.\<close>

fun getAttribute :: "node \<Rightarrow> string \<Rightarrow> string" where
  "getAttribute (Element t as cs) a = (case map_of as a of None \<Rightarrow> [] | Some v \<Rightarrow> v)"
| "getAttribute (Document cs) a = []"
| "getAttribute (Text d) a = []"
| "getAttribute OtherNode a = []"

text \<open>
  \<^verbatim>\<open>get_DOM_text(node, childname=None)\<close>. The docstring says the text comes from "a
  child node with node name childname"; the source finds that node with
  \<^verbatim>\<open>getElementsByTagName\<close> and takes the first hit. A minidom node is always true, so
  \<^verbatim>\<open>if not node\<close> never returns.
\<close>

definition get_DOM_text :: "node \<Rightarrow> string option \<Rightarrow> string option" where
  "get_DOM_text node childname =
     (case (case childname of
              None \<Rightarrow> Some node
            | Some cn \<Rightarrow>
                if cn = [] then Some node
                else (case getElementsByTagName node cn of
                        [] \<Rightarrow> None
                      | n # ns \<Rightarrow> Some n)) of
        None \<Rightarrow> None
      | Some node \<Rightarrow>
          (case childNodes node of
             [] \<Rightarrow> None
           | Text d # ns \<Rightarrow> Some d
           | Document cs # ns \<Rightarrow> None
           | Element t as cs # ns \<Rightarrow> None
           | OtherNode # ns \<Rightarrow> None))"

datatype py_exception = ValueError | TypeError | ParseError | EphemError

text \<open>What \<^verbatim>\<open>read_track_file_GPX\<close> returns: the bare list \<^verbatim>\<open>[]\<close> of line 146, or
  the pair of line 168.\<close>

datatype loader_result =
    EmptyList
  | ObserverWaypoints "node option" "waypoint list"

text \<open>\<^verbatim>\<open>"%d" % n\<close> for a natural number.\<close>

fun string_of_nat :: "nat \<Rightarrow> string" where
  "string_of_nat n =
     (if n < 10 then [''0123456789'' ! n]
      else string_of_nat (n div 10) @ [''0123456789'' ! (n mod 10)])"

text \<open>\<^verbatim>\<open>str.lower\<close> on the ASCII letters; names are byte strings here.\<close>

definition lower :: "string \<Rightarrow> string" where
  "lower s = map (\<lambda>c. let n = (of_char c :: nat)
                       in if 65 \<le> n \<and> n \<le> 90 then char_of (n + 32) else c) s"

text \<open>
  The loop of lines 150 to 165 over the \<^verbatim>\<open><wpt>\<close> elements. \<open>pyfloat\<close> is Python's
  \<^verbatim>\<open>float\<close> on a string, \<open>None\<close> where it raises \<^verbatim>\<open>ValueError\<close>. The elevation is
  read inside \<^verbatim>\<open>try\<close> with a bare \<^verbatim>\<open>except\<close>: \<^verbatim>\<open>float(None)\<close> and an unreadable
  text both end in \<^verbatim>\<open>ele = 500\<close>.
\<close>

fun wpt_loop ::
  "(string \<Rightarrow> real option) \<Rightarrow> node list \<Rightarrow> node option \<Rightarrow> waypoint list \<Rightarrow> nat \<Rightarrow>
     py_exception + (node option \<times> waypoint list)" where
  "wpt_loop pyfloat [] observer waypoints pointno = Inr (observer, waypoints)"
| "wpt_loop pyfloat (pt # pts) observer waypoints pointno =
     (case pyfloat (getAttribute pt ''lat'') of
        None \<Rightarrow> Inl ValueError
      | Some lat \<Rightarrow>
     (case pyfloat (getAttribute pt ''lon'') of
        None \<Rightarrow> Inl ValueError
      | Some lon \<Rightarrow>
     (let ele = (case get_DOM_text pt (Some ''ele'') of
                   None \<Rightarrow> 500
                 | Some s \<Rightarrow> (case pyfloat s of None \<Rightarrow> 500 | Some v \<Rightarrow> v));
          name = get_DOM_text pt (Some ''name'');
          unnamed = (case name of None \<Rightarrow> True | Some s \<Rightarrow> s = []);
          pointno = (if unnamed then pointno + 1 else pointno);
          name = (case name of
                    None \<Rightarrow> ''Point '' @ string_of_nat pointno
                  | Some s \<Rightarrow> if s = [] then ''Point '' @ string_of_nat pointno else s);
          waypoints = waypoints @ [\<lparr>wp_name = name, wp_lat = lat, wp_lon = lon, wp_ele = ele\<rparr>];
          observer = (if lower name = ''observer'' then Some pt else observer)
      in wpt_loop pyfloat pts observer waypoints pointno)))"

text \<open>\<^verbatim>\<open>read_track_file_GPX\<close> on the parsed document (\<^verbatim>\<open>dom\<close> in the source).\<close>

definition read_track_file_GPX ::
  "(string \<Rightarrow> real option) \<Rightarrow> node \<Rightarrow> py_exception + loader_result" where
  "read_track_file_GPX pyfloat document =
     (let waypts = getElementsByTagName document ''wpt''
      in if waypts = [] then Inr EmptyList
         else (case wpt_loop pyfloat waypts None [] 0 of
                 Inl ex \<Rightarrow> Inl ex
               | Inr (observer, waypoints) \<Rightarrow> Inr (ObserverWaypoints observer waypoints)))"

section \<open>The run\<close>

text \<open>
  Lines 227 to 260 of the script. What the run needs from outside is an environment:
  the parser (\<^verbatim>\<open>xml.dom.minidom.parse\<close>, which can raise), \<^verbatim>\<open>float\<close>, the ephemeris
  provider, the wall clock at each call of \<^verbatim>\<open>ephem.now()\<close>, the current year and the
  date a new \<^verbatim>\<open>ephem.Observer()\<close> starts with.
\<close>

record environment =
  xml_parse :: "string \<Rightarrow> py_exception + node"
  py_float :: "string \<Rightarrow> real option"
  ephem :: ephemeris
  clock :: "nat \<Rightarrow> real"
  current_year :: int
  observer_created :: real

text \<open>\<^verbatim>\<open>observerPoint\<close> is a waypoint list, or the DOM node the loader hands back.\<close>

datatype observer_point = PointList waypoint | PointNode node

datatype printed =
    NoWaypointsIn string
  | Help
  | FirstWaypoint waypoint
  | PrintObserver observer
  | BlankLine
  | MatchesHeader
  | Matches "string list list"

datatype ending = Finished | Exit nat | Raised py_exception

text \<open>
  The loop of lines 228 to 235 over the files. \<^verbatim>\<open>obs, wp = read_track_file_GPX(filename)\<close>
  unpacks the result into two names, which raises \<^verbatim>\<open>ValueError\<close> on the empty list.
  The result is what was printed, and the exception or the loop's variables.
\<close>

fun files_loop ::
  "environment \<Rightarrow> string list \<Rightarrow> observer_point option \<Rightarrow> waypoint list \<Rightarrow> printed list \<Rightarrow>
     printed list \<times> (py_exception + (observer_point option \<times> waypoint list))" where
  "files_loop env [] observerPoint waypoints out = (out, Inr (observerPoint, waypoints))"
| "files_loop env (filename # rest) observerPoint waypoints out =
     (case xml_parse env filename of
        Inl ex \<Rightarrow> (out, Inl ex)
      | Inr document \<Rightarrow>
     (case read_track_file_GPX (py_float env) document of
        Inl ex \<Rightarrow> (out, Inl ex)
      | Inr EmptyList \<Rightarrow> (out, Inl ValueError)
      | Inr (ObserverWaypoints obs wp) \<Rightarrow>
          (let waypoints = (if wp \<noteq> [] then waypoints @ wp else waypoints);
               out = (if wp \<noteq> [] then out else out @ [NoWaypointsIn filename]);
               observerPoint = (case obs of None \<Rightarrow> observerPoint
                                | Some pt \<Rightarrow> Some (PointNode pt))
           in files_loop env rest observerPoint waypoints out)))"

text \<open>
  The run from line 227 on; \<open>observerPoint\<close> is what lines 210 to 225 made of the
  \<^verbatim>\<open>-o\<close> option. Subscripting a DOM element raises \<^verbatim>\<open>TypeError\<close>.
\<close>

definition main :: "environment \<Rightarrow> observer_point option \<Rightarrow> string list \<Rightarrow> printed list \<times> ending" where
  "main env observerPoint gpxfiles =
     (case files_loop env gpxfiles observerPoint [] [] of
        (out, Inl ex) \<Rightarrow> (out, Raised ex)
      | (out, Inr (observerPoint, waypoints)) \<Rightarrow>
     (case waypoints of
        [] \<Rightarrow> (out @ [Help], Exit 1)
      | first # others \<Rightarrow>
     (let out = (case observerPoint of None \<Rightarrow> out @ [FirstWaypoint first] | Some p \<Rightarrow> out);
          observerPoint = (case observerPoint of None \<Rightarrow> PointList first | Some p \<Rightarrow> p)
      in case observerPoint of
           PointNode pt \<Rightarrow> (out, Raised TypeError)
         | PointList wp \<Rightarrow>
             (let observer = \<lparr>date = observer_created env, obs_lat = wp_lat wp * degree,
                              obs_lon = wp_lon wp * degree, elevation = wp_ele wp\<rparr>;
                  out = out @ [PrintObserver observer, BlankLine]
              in case find_alignments (ephem env) (clock env) (current_year env)
                        observer waypoints None of
                   None \<Rightarrow> (out, Raised EphemError)
                 | Some (matches, observer) \<Rightarrow>
                     (out @ [MatchesHeader, Matches matches], Finished)))))"

section \<open>A small periodic provider and sample inputs\<close>

text \<open>
  Concrete inputs on which the definitions are evaluated. In \<open>toy_ephemeris\<close> a day is one
  unit of time: both bodies rise a quarter of a day after each whole instant and set at
  three quarters, a full moon falls every 30 days, equinoxes and solstices alternate 90
  days apart in a year of 360 days, and \<^verbatim>\<open>ephem.Date('1/1/Y')\<close> counts days from the
  start of 1900, so instants before 1900 are negative as they are in \<^verbatim>\<open>ephem\<close>. The
  azimuth it reports is the date folded into one turn.
\<close>

definition toy_ephemeris :: ephemeris where
  "toy_ephemeris =
     \<lparr>previous_rising = (\<lambda>ob b. Some (of_int \<lfloor>date ob - 1 / 4\<rfloor> + 1 / 4)),
      next_rising = (\<lambda>ob b. Some (of_int \<lfloor>date ob - 1 / 4\<rfloor> + 5 / 4)),
      previous_setting = (\<lambda>ob b. Some (of_int \<lfloor>date ob - 3 / 4\<rfloor> + 3 / 4)),
      next_setting = (\<lambda>ob b. Some (of_int \<lfloor>date ob - 3 / 4\<rfloor> + 7 / 4)),
      compute_az = (\<lambda>b ob. pymod (date ob) 360 * degree),
      previous_full_moon = (\<lambda>t. 30 * of_int \<lfloor>(t - 15) / 30\<rfloor> + 15),
      next_full_moon = (\<lambda>t. 30 * of_int \<lfloor>(t - 15) / 30\<rfloor> + 45),
      next_equinox = (\<lambda>t. 180 * of_int \<lfloor>(t - 80) / 180\<rfloor> + 260),
      next_solstice = (\<lambda>t. 180 * of_int \<lfloor>(t - 170) / 180\<rfloor> + 350),
      Date_jan1 = (\<lambda>y. 360 * of_int (y - 1900))\<rparr>"

definition toy_observer :: "real \<Rightarrow> observer" where
  "toy_observer t = \<lparr>date = t, obs_lat = 0, obs_lon = 0, elevation = 0\<rparr>"

text \<open>\<^verbatim>\<open>float\<close> on the few strings the sample documents hold.\<close>

definition toy_float :: "string \<Rightarrow> real option" where
  "toy_float s =
     (if s = ''34.80'' then Some (174 / 5)
      else if s = ''-103.20'' then Some (- 516 / 5)
      else if s = ''1650'' then Some 1650
      else None)"

text \<open>A document with no \<^verbatim>\<open><wpt>\<close> element, and one with two: the first has a name
  and no \<^verbatim>\<open><ele>\<close>, the second an \<^verbatim>\<open><ele>\<close> that is not a number and no name.\<close>

definition gpx_empty :: node where
  "gpx_empty = Document [Element ''gpx'' [(''version'', ''1.1'')] [Text '' '']]"

definition gpx_two :: node where
  "gpx_two = Document [Element ''gpx'' []
     [Element ''wpt'' [(''lat'', ''34.80''), (''lon'', ''-103.20'')]
        [Element ''name'' [] [Text ''A'']],
      Element ''wpt'' [(''lat'', ''34.80''), (''lon'', ''-103.20'')]
        [Element ''ele'' [] [Text ''high'']]]]"

text \<open>A document whose one \<^verbatim>\<open><wpt>\<close> has no \<^verbatim>\<open><ele>\<close> child; an element of that
  name sits deeper, inside \<^verbatim>\<open><extensions>\<close>.\<close>

definition gpx_nested :: node where
  "gpx_nested = Document [Element ''gpx'' []
     [Element ''wpt'' [(''lat'', ''34.80''), (''lon'', ''-103.20'')]
        [Element ''extensions'' [] [Element ''ele'' [] [Text ''1650'']]]]]"

text \<open>Two waypoints apart only in their names, and a table with one season.\<close>

definition wp_A :: waypoint where
  "wp_A = \<lparr>wp_name = ''A'', wp_lat = 0, wp_lon = 0, wp_ele = 500\<rparr>"

definition wp_B :: waypoint where
  "wp_B = \<lparr>wp_name = ''B'', wp_lat = 0, wp_lon = 0, wp_ele = 500\<rparr>"

definition toy_table :: azimuth_table where
  "toy_table = [(''vernal equinox'', [(''sun'', [(''rise'', 1), (''set'', 2)])])]"

section \<open>Arithmetic of bearings\<close>

lemma degree_nz: "degree \<noteq> 0"
  by (simp add: degree_def)

lemma pymod_range:
  assumes "0 < b"
  shows "0 \<le> pymod a b" and "pymod a b < b"
proof -
  have "b * of_int \<lfloor>a / b\<rfloor> \<le> b * (a / b)"
    using assms by (intro mult_left_mono) simp_all
  then show "0 \<le> pymod a b" using assms by (simp add: pymod_def)
  have "a / b < of_int \<lfloor>a / b\<rfloor> + 1" by linarith
  then have "b * (a / b) < b * (of_int \<lfloor>a / b\<rfloor> + 1)"
    using assms by (intro mult_strict_left_mono) simp_all
  then show "pymod a b < b" using assms by (simp add: pymod_def algebra_simps)
qed

text \<open>\<open>atan2\<close> is the angle of the point \<open>(x, y)\<close>, in the half-open turn above \<open>- pi\<close>.\<close>

lemma atan2_range: "- pi < atan2 y x \<and> atan2 y x \<le> pi"
proof -
  have a: "- (pi / 2) < arctan (y / x)" "arctan (y / x) < pi / 2"
    by (rule arctan_lbound, rule arctan_ubound)
  have neg: "arctan (y / x) \<le> 0" if "x < 0" "0 \<le> y"
    using that by (simp add: divide_nonneg_neg arctan_le_zero_iff)
  have pos: "0 < arctan (y / x)" if "x < 0" "y < 0"
    using that by (simp add: divide_neg_neg zero_less_arctan_iff)
  show ?thesis
    using a neg pos pi_gt_zero unfolding atan2_def
    by (auto simp: not_less not_le)
qed

lemma atan2_polar:
  assumes "x \<noteq> 0 \<or> y \<noteq> 0"
  shows "sqrt (x\<^sup>2 + y\<^sup>2) * cos (atan2 y x) = x \<and> sqrt (x\<^sup>2 + y\<^sup>2) * sin (atan2 y x) = y"
proof -
  have pos: "sqrt (u\<^sup>2 + v\<^sup>2) * cos (arctan (v / u)) = u
           \<and> sqrt (u\<^sup>2 + v\<^sup>2) * sin (arctan (v / u)) = v" if "0 < u" for u v :: real
  proof -
    have "u\<^sup>2 + v\<^sup>2 = u\<^sup>2 * (1 + (v / u)\<^sup>2)"
      using that by (simp add: field_simps power2_eq_square)
    then have "sqrt (u\<^sup>2 + v\<^sup>2) = u * sqrt (1 + (v / u)\<^sup>2)"
      using that by (simp add: real_sqrt_mult)
    moreover have "sqrt (1 + (v / u)\<^sup>2) \<noteq> 0"
      by (metis add_nonneg_eq_0_iff real_sqrt_eq_zero_cancel_iff zero_le_power2 zero_neq_one
          zero_le_one)
    ultimately show ?thesis
      using that by (simp add: cos_arctan sin_arctan)
  qed
  show ?thesis
  proof (cases "0 < x")
    case True
    then show ?thesis using pos[OF True, of y] by (simp add: atan2_def)
  next
    case False
    show ?thesis
    proof (cases "x < 0")
      case True
      have "0 < - x" using True by simp
      from pos[OF this, of "- y"] have
        "sqrt (x\<^sup>2 + y\<^sup>2) * cos (arctan (y / x)) = - x
         \<and> sqrt (x\<^sup>2 + y\<^sup>2) * sin (arctan (y / x)) = - y"
        by simp
      then show ?thesis using True by (simp add: atan2_def)
    next
      case x0: False
      with False have "x = 0" by simp
      with assms have "y \<noteq> 0" by simp
      then show ?thesis using \<open>x = 0\<close> by (auto simp: atan2_def not_less)
    qed
  qed
qed

text \<open>
  C7. For every two waypoints, \<open>angle_between\<close> is \<open>360\<close> minus the \<open>atan2\<close> of
  \<open>y = sin dlon * cos lat2\<close> and \<open>x = cos lat1 * sin lat2 - sin lat1 * cos lat2 * cos dlon\<close>
  in degrees, taken modulo 360 with \<open>dlon = lon2 - lon1\<close>, and the value lies in
  \<open>[0, 360)\<close>.
\<close>

theorem angle_between_formula_range:
  "angle_between A B =
     pymod (360 - atan2 (sin (wp_lon B - wp_lon A) * cos (wp_lat B))
                        (cos (wp_lat A) * sin (wp_lat B)
                           - sin (wp_lat A) * cos (wp_lat B) * cos (wp_lon B - wp_lon A))
                  / degree) 360
   \<and> 0 \<le> angle_between A B \<and> angle_between A B < 360"
  using pymod_range[of 360] by (simp add: angle_between_def Let_def)

lemma angle_between_same_place: "angle_between wp_A wp_B = 0" "angle_between wp_B wp_A = 0"
  by (simp_all add: angle_between_def wp_A_def wp_B_def atan2_def pymod_def)

lemma tan_one_degree: "0 \<le> tan (pi / 180)" "tan (pi / 180) \<le> 1"
proof -
  show "0 \<le> tan (pi / 180)"
    by (rule tan_pos_pi2_le) (use pi_gt_zero in simp_all)
  have "tan (pi / 180) \<le> tan (pi / 4)"
    by (rule tan_mono_le) (use pi_gt_zero in simp_all)
  then show "tan (pi / 180) \<le> 1" by (simp add: tan_45)
qed

text \<open>A pair of waypoints whose bearing is exactly 359 degrees.\<close>

lemma bearing_359:
  "angle_between \<lparr>wp_name = n1, wp_lat = 0, wp_lon = 0, wp_ele = e1\<rparr>
     \<lparr>wp_name = n2, wp_lat = pi / 4, wp_lon = arcsin (tan (pi / 180)), wp_ele = e2\<rparr> = 359"
proof -
  have s: "sin (arcsin (tan (pi / 180))) = tan (pi / 180)"
    using tan_one_degree by (intro sin_arcsin) simp_all
  have q: "tan (pi / 180) * cos (pi / 4) / sin (pi / 4) = tan (pi / 180)"
    by (simp add: cos_45 sin_45)
  have a: "arctan (tan (pi / 180)) = pi / 180"
    by (rule arctan_tan) (use pi_gt_zero in simp_all)
  have "atan2 (tan (pi / 180) * cos (pi / 4)) (sin (pi / 4)) = pi / 180"
    using a q by (simp add: atan2_def sin_45)
  then show ?thesis
    by (simp add: angle_between_def Let_def s degree_def pymod_def)
qed

section \<open>The matcher's loops\<close>

lemma fold_append_concat:
  assumes "\<And>x m. g x m = m @ h x"
  shows "fold g xs m = m @ concat (map h xs)"
  using assms by (induction xs arbitrary: m) simp_all

lemma event_loop:
  "fold (\<lambda>(event, az) matches.
           if \<bar>az - angle\<bar> < DEGREESLOP
           then matches @ [[name1, name2, season @ '' '' @ body @ event]]
           else matches) events m =
   m @ [[name1, name2, season @ '' '' @ body @ event].
          (event, az) \<leftarrow> events, \<bar>az - angle\<bar> < 2]"
  by (rule fold_append_concat) (auto simp: DEGREESLOP_def)

lemma match_angle_append:
  "match_angle azimuths name1 name2 angle m =
   m @ [[name1, name2, season @ '' '' @ body @ event].
          (season, bodies) \<leftarrow> azimuths, (body, events) \<leftarrow> bodies,
          (event, az) \<leftarrow> events, \<bar>az - angle\<bar> < 2]"
  unfolding match_angle_def
  apply (rule fold_append_concat)
  apply clarsimp
  apply (rule fold_append_concat)
  apply (clarsimp simp: event_loop)
  done

lemma match_waypoints_concat:
  "match_waypoints azimuths waypoints =
   concat (map (\<lambda>wp1. concat (map (\<lambda>wp2.
       if wp1 = wp2 then []
       else match_angle azimuths (wp_name wp1) (wp_name wp2) (angle_between wp1 wp2) [])
     waypoints)) waypoints)"
proof -
  have inner: "fold (\<lambda>wp2 matches.
         if wp1 = wp2 then matches
         else match_angle azimuths (wp_name wp1) (wp_name wp2) (angle_between wp1 wp2) matches)
       ws m
      = m @ concat (map (\<lambda>wp2. if wp1 = wp2 then []
           else match_angle azimuths (wp_name wp1) (wp_name wp2) (angle_between wp1 wp2) []) ws)"
    for wp1 ws m
    by (rule fold_append_concat) (simp add: match_angle_append)
  have outer: "fold (\<lambda>wp1. fold (\<lambda>wp2 matches.
         if wp1 = wp2 then matches
         else match_angle azimuths (wp_name wp1) (wp_name wp2) (angle_between wp1 wp2) matches)
       ws') ws m
      = m @ concat (map (\<lambda>wp1. concat (map (\<lambda>wp2. if wp1 = wp2 then []
           else match_angle azimuths (wp_name wp1) (wp_name wp2) (angle_between wp1 wp2) [])
         ws')) ws)"
    for ws ws' m
    by (rule fold_append_concat) (simp add: inner)
  show ?thesis
    unfolding match_waypoints_def outer by simp
qed

lemma concat_pairs:
  "concat (map (\<lambda>(a, b). F a b) [(a, b). a \<leftarrow> xs, b \<leftarrow> ys, a \<noteq> b])
     = concat (map (\<lambda>a. concat (map (\<lambda>b. if a = b then [] else F a b) ys)) xs)"
proof -
  have "concat (map (\<lambda>(a, b). F a b) (concat (map (\<lambda>b. if a \<noteq> b then [(a, b)] else []) ys)))
      = concat (map (\<lambda>b. if a = b then [] else F a b) ys)" for a
    by (induction ys) auto
  then show ?thesis by (induction xs) auto
qed

text \<open>
  C5. The matches are, in loop order, one entry for every ordered pair of unequal
  waypoints and every table entry whose azimuth differs from the pair's bearing by
  strictly less than 2 degrees, and nothing else. For a single table entry: an azimuth
  exactly 2 degrees from the bearing gives no match, one 1.999 degrees away gives the
  match.
\<close>

theorem match_within_tolerance:
  "match_waypoints azimuths waypoints =
     [[wp_name wp1, wp_name wp2, season @ '' '' @ body @ event].
        wp1 \<leftarrow> waypoints, wp2 \<leftarrow> waypoints, wp1 \<noteq> wp2,
        (season, bodies) \<leftarrow> azimuths, (body, events) \<leftarrow> bodies, (event, az) \<leftarrow> events,
        \<bar>az - angle_between wp1 wp2\<bar> < 2]
   \<and> match_angle [(season, [(body, [(event, az)])])] name1 name2 angle [] =
       (if \<bar>az - angle\<bar> < 2 then [[name1, name2, season @ '' '' @ body @ event]] else [])
   \<and> match_angle [(season, [(body, [(event, angle + 2)])])] name1 name2 angle [] = []
   \<and> match_angle [(season, [(body, [(event, angle - 2)])])] name1 name2 angle [] = []
   \<and> match_angle [(season, [(body, [(event, angle + 1999 / 1000)])])] name1 name2 angle [] =
       [[name1, name2, season @ '' '' @ body @ event]]
   \<and> match_angle [(season, [(body, [(event, angle - 1999 / 1000)])])] name1 name2 angle [] =
       [[name1, name2, season @ '' '' @ body @ event]]"
proof -
  have "match_waypoints azimuths waypoints =
     [[wp_name wp1, wp_name wp2, season @ '' '' @ body @ event].
        wp1 \<leftarrow> waypoints, wp2 \<leftarrow> waypoints, wp1 \<noteq> wp2,
        (season, bodies) \<leftarrow> azimuths, (body, events) \<leftarrow> bodies, (event, az) \<leftarrow> events,
        \<bar>az - angle_between wp1 wp2\<bar> < 2]"
    unfolding match_waypoints_concat match_angle_append
    by (auto intro!: arg_cong[where f=concat] map_cong)
  then show ?thesis
    by (simp add: match_angle_append)
qed

text \<open>On the sample table, the bearing 0 matches the sunrise at 1 degree and not the
  sunset at 2 degrees, in both directions.\<close>

theorem match_within_tolerance_witness:
  "match_waypoints toy_table [wp_A, wp_B] =
     [[''A'', ''B'', ''vernal equinox sunrise''], [''B'', ''A'', ''vernal equinox sunrise'']]"
  using match_within_tolerance[of toy_table "[wp_A, wp_B]"]
  by (simp add: toy_table_def angle_between_same_place) (simp add: wp_A_def wp_B_def)

text \<open>
  C6. The comparison is the plain difference of the two numbers. The pair of waypoints
  below has bearing 359 degrees and gives no match with an event azimuth of 1 degree;
  neither does a bearing of 359.5 with an azimuth of 0.5, one degree apart on the circle,
  nor the same two the other way round.
\<close>

theorem no_wraparound:
  "angle_between \<lparr>wp_name = name1, wp_lat = 0, wp_lon = 0, wp_ele = 500\<rparr>
     \<lparr>wp_name = name2, wp_lat = pi / 4, wp_lon = arcsin (tan (pi / 180)), wp_ele = 500\<rparr> = 359
   \<and> match_angle [(season, [(body, [(event, 1)])])] name1 name2
        (angle_between \<lparr>wp_name = name1, wp_lat = 0, wp_lon = 0, wp_ele = 500\<rparr>
          \<lparr>wp_name = name2, wp_lat = pi / 4, wp_lon = arcsin (tan (pi / 180)), wp_ele = 500\<rparr>)
        [] = []
   \<and> match_angle [(season, [(body, [(event, 1 / 2)])])] name1 name2 (719 / 2) [] = []
   \<and> match_angle [(season, [(body, [(event, 719 / 2)])])] name1 name2 (1 / 2) [] = []"
  by (simp add: bearing_359 match_angle_append)

text \<open>
  C8. The outer loops visit exactly the ordered pairs of unequal waypoints, in list
  order: the matches are the inner loops' results over the list of those pairs, and
  that list holds \<open>(a, b)\<close> exactly when both are waypoints and \<open>a \<noteq> b\<close> as records
  (so \<open>(b, a)\<close> is in it whenever \<open>(a, b)\<close> is, and \<open>(a, a)\<close> never).
\<close>

theorem ordered_distinct_pairs:
  "match_waypoints azimuths waypoints =
     concat (map (\<lambda>(wp1, wp2).
         match_angle azimuths (wp_name wp1) (wp_name wp2) (angle_between wp1 wp2) [])
       [(wp1, wp2). wp1 \<leftarrow> waypoints, wp2 \<leftarrow> waypoints, wp1 \<noteq> wp2])
   \<and> set [(wp1, wp2). wp1 \<leftarrow> waypoints, wp2 \<leftarrow> waypoints, wp1 \<noteq> wp2] =
       {(a, b). a \<in> set waypoints \<and> b \<in> set waypoints \<and> a \<noteq> b}"
  by (auto simp: match_waypoints_concat concat_pairs)

text \<open>With a waypoint listed twice: the two equal records are never paired.\<close>

theorem ordered_distinct_pairs_witness:
  "set [(wp1, wp2). wp1 \<leftarrow> [wp_A, wp_B, wp_A], wp2 \<leftarrow> [wp_A, wp_B, wp_A], wp1 \<noteq> wp2] =
     {(wp_A, wp_B), (wp_B, wp_A)}
   \<and> match_waypoints toy_table [wp_A, wp_B, wp_A] =
       match_angle toy_table ''A'' ''B'' 0 [] @ match_angle toy_table ''B'' ''A'' 0 []
       @ match_angle toy_table ''B'' ''A'' 0 [] @ match_angle toy_table ''A'' ''B'' 0 []"
proof -
  have ne: "wp_A \<noteq> wp_B" by (simp add: wp_A_def wp_B_def)
  have n: "wp_name wp_A = ''A''" "wp_name wp_B = ''B''" by (simp_all add: wp_A_def wp_B_def)
  show ?thesis
    using ordered_distinct_pairs[of toy_table "[wp_A, wp_B, wp_A]"] ne ne[symmetric]
    by (auto simp: angle_between_same_place n)
qed

section \<open>The resolver and the seasons\<close>

lemma in_degrees:
  assumes "0 \<le> a" "a < 2 * pi"
  shows "0 \<le> a / degree" "a / degree < 360"
proof -
  have d: "0 < degree" by (simp add: degree_def)
  show "0 \<le> a / degree" using assms d by simp
  have "a < 360 * degree" using assms by (simp add: degree_def)
  then show "a / degree < 360" using d by (simp add: pos_divide_less_eq)
qed

lemma find_rise_set_result:
  assumes "find_rise_set e observer obj d = Some (riseset, observer')"
  shows "\<exists>ob1 ob2. riseset = [(''rise'', compute_az e obj ob1 / degree),
                             (''set'', compute_az e obj ob2 / degree)] \<and> observer' = ob2"
  using assms
  by (auto simp: find_rise_set_def Let_def split: option.splits if_splits bind_splits)

lemma find_azimuths_result:
  assumes "find_azimuths e now observer = Some (riseset, observer')"
  obtains sun ob1 moon where
    "find_rise_set e observer Sun None = Some (sun, ob1)"
    "find_rise_set e
       (ob1\<lparr>date := (if now - previous_full_moon e (date ob1) > next_full_moon e (date ob1) - now
                      then next_full_moon e (date ob1) else previous_full_moon e (date ob1))\<rparr>)
       Moon None = Some (moon, observer')"
    "riseset = [(''sun'', sun), (''full moon'', moon)]"
  using assms
  by (auto simp: find_azimuths_def Let_def split: bind_splits if_splits)

lemma find_rise_set_at_date:
  "t \<noteq> 0 \<Longrightarrow> find_rise_set e ob obj (Some t) = find_rise_set e (ob\<lparr>date := t\<rparr>) obj None"
  by (simp add: find_rise_set_def)

subsection \<open>The sample provider, evaluated\<close>

lemma toy_sel:
  "previous_full_moon toy_ephemeris t = 30 * of_int \<lfloor>(t - 15) / 30\<rfloor> + 15"
  "next_full_moon toy_ephemeris t = 30 * of_int \<lfloor>(t - 15) / 30\<rfloor> + 45"
  "next_equinox toy_ephemeris t = 180 * of_int \<lfloor>(t - 80) / 180\<rfloor> + 260"
  "next_solstice toy_ephemeris t = 180 * of_int \<lfloor>(t - 170) / 180\<rfloor> + 350"
  "Date_jan1 toy_ephemeris y = 360 * of_int (y - 1900)"
  "previous_rising toy_ephemeris ob b = Some (of_int \<lfloor>date ob - 1 / 4\<rfloor> + 1 / 4)"
  "next_rising toy_ephemeris ob b = Some (of_int \<lfloor>date ob - 1 / 4\<rfloor> + 5 / 4)"
  "previous_setting toy_ephemeris ob b = Some (of_int \<lfloor>date ob - 3 / 4\<rfloor> + 3 / 4)"
  "next_setting toy_ephemeris ob b = Some (of_int \<lfloor>date ob - 3 / 4\<rfloor> + 7 / 4)"
  "compute_az toy_ephemeris b ob = pymod (date ob) 360 * degree"
  by (simp_all add: toy_ephemeris_def)

lemma toy_observer_simps:
  "date (toy_observer t) = t"
  "(toy_observer t)\<lparr>date := s\<rparr> = toy_observer s"
  by (simp_all add: toy_observer_def)

lemma toy_az_range: "0 \<le> compute_az toy_ephemeris b ob \<and> compute_az toy_ephemeris b ob < 2 * pi"
proof -
  have "0 \<le> pymod (date ob) 360" "pymod (date ob) 360 < 360"
    by (rule pymod_range, simp)+
  then show ?thesis
    by (simp add: toy_sel degree_def)
qed

lemma toy_find_rise_set:
  "find_rise_set toy_ephemeris (toy_observer t) obj None =
     (let r = nearest_time t (of_int \<lfloor>t - 1 / 4\<rfloor> + 1 / 4) (of_int \<lfloor>t - 1 / 4\<rfloor> + 5 / 4);
          s = nearest_time r (of_int \<lfloor>t - 3 / 4\<rfloor> + 3 / 4) (of_int \<lfloor>t - 3 / 4\<rfloor> + 7 / 4)
      in Some ([(''rise'', pymod r 360), (''set'', pymod s 360)], toy_observer s))"
  by (simp add: find_rise_set_def toy_sel toy_observer_simps Let_def degree_nz)

lemma toy_rise_set_at:
  "find_rise_set toy_ephemeris (toy_observer (- 280)) Sun None =
     Some ([(''rise'', 1 / 4), (''set'', 559 / 2)], toy_observer (559 / 2))"
  "find_rise_set toy_ephemeris (toy_observer 285) Moon None =
     Some ([(''rise'', 1 / 4), (''set'', 569 / 2)], toy_observer (569 / 2))"
  "find_rise_set toy_ephemeris (toy_observer 350) Sun None =
     Some ([(''rise'', 1 / 4), (''set'', 699 / 2)], toy_observer (699 / 2))"
  "find_rise_set toy_ephemeris (toy_observer 375) Moon None =
     Some ([(''rise'', 1 / 4), (''set'', 29 / 2)], toy_observer (749 / 2))"
  "find_rise_set toy_ephemeris (toy_observer 440) Sun None =
     Some ([(''rise'', 1 / 4), (''set'', 159 / 2)], toy_observer (879 / 2))"
  "find_rise_set toy_ephemeris (toy_observer 465) Moon None =
     Some ([(''rise'', 1 / 4), (''set'', 209 / 2)], toy_observer (929 / 2))"
  "find_rise_set toy_ephemeris (toy_observer 530) Sun None =
     Some ([(''rise'', 1 / 4), (''set'', 339 / 2)], toy_observer (1059 / 2))"
  "find_rise_set toy_ephemeris (toy_observer 555) Moon None =
     Some ([(''rise'', 1 / 4), (''set'', 389 / 2)], toy_observer (1109 / 2))"
  "find_rise_set toy_ephemeris (toy_observer 80) Sun None =
     Some ([(''rise'', 1 / 4), (''set'', 159 / 2)], toy_observer (159 / 2))"
  "find_rise_set toy_ephemeris (toy_observer 105) Moon None =
     Some ([(''rise'', 1 / 4), (''set'', 209 / 2)], toy_observer (209 / 2))"
  by (simp_all add: toy_find_rise_set nearest_time_def pymod_def Let_def)

lemma toy_azimuths_at:
  "find_azimuths toy_ephemeris 46000 (toy_observer (- 280)) =
     Some ([(''sun'', [(''rise'', 1 / 4), (''set'', 559 / 2)]),
            (''full moon'', [(''rise'', 1 / 4), (''set'', 569 / 2)])], toy_observer (569 / 2))"
  "find_azimuths toy_ephemeris 46000 (toy_observer 350) =
     Some ([(''sun'', [(''rise'', 1 / 4), (''set'', 699 / 2)]),
            (''full moon'', [(''rise'', 1 / 4), (''set'', 29 / 2)])], toy_observer (749 / 2))"
  "find_azimuths toy_ephemeris 46000 (toy_observer 440) =
     Some ([(''sun'', [(''rise'', 1 / 4), (''set'', 159 / 2)]),
            (''full moon'', [(''rise'', 1 / 4), (''set'', 209 / 2)])], toy_observer (929 / 2))"
  "find_azimuths toy_ephemeris 46000 (toy_observer 530) =
     Some ([(''sun'', [(''rise'', 1 / 4), (''set'', 339 / 2)]),
            (''full moon'', [(''rise'', 1 / 4), (''set'', 389 / 2)])], toy_observer (1109 / 2))"
  "find_azimuths toy_ephemeris 46000 (toy_observer 80) =
     Some ([(''sun'', [(''rise'', 1 / 4), (''set'', 159 / 2)]),
            (''full moon'', [(''rise'', 1 / 4), (''set'', 209 / 2)])], toy_observer (209 / 2))"
  by (simp_all add: find_azimuths_def toy_rise_set_at toy_sel toy_observer_simps)

subsection \<open>Claims about the resolver and the aggregator\<close>

text \<open>
  C1. Evaluated on the sample provider at the target instant 100: the candidates are the
  risings at 99.25 and 100.25 and the settings at 99.75 and 100.75, so the nearest rising
  is 100.25 and the nearest setting 99.75. \<open>nearest_time\<close> returns the distance 0.25, not
  the rising 100.25; the rise azimuth is computed with the observer's date at 0.25, the
  setting is then chosen against 0.25 instead of the target, and the observer is left at
  99.5, which is no setting. At the nearest rising and setting the provider's azimuths are
  100.25 and 99.75 degrees; the result holds 0.25 and 99.5.
\<close>

theorem nearest_time_returns_distance:
  "previous_rising toy_ephemeris (toy_observer 100) Sun = Some (397 / 4)
   \<and> next_rising toy_ephemeris (toy_observer 100) Sun = Some (401 / 4)
   \<and> previous_setting toy_ephemeris (toy_observer 100) Sun = Some (399 / 4)
   \<and> next_setting toy_ephemeris (toy_observer 100) Sun = Some (403 / 4)
   \<and> nearest_time 100 (397 / 4) (401 / 4) = 1 / 4
   \<and> nearest_time (1 / 4) (399 / 4) (403 / 4) = 199 / 2
   \<and> find_rise_set toy_ephemeris (toy_observer 0) Sun (Some 100) =
       Some ([(''rise'', 1 / 4), (''set'', 199 / 2)], toy_observer (199 / 2))
   \<and> compute_az toy_ephemeris Sun (toy_observer (401 / 4)) / degree = 401 / 4
   \<and> compute_az toy_ephemeris Sun (toy_observer (399 / 4)) / degree = 399 / 4"
proof -
  have p: "previous_rising toy_ephemeris (toy_observer 100) Sun = Some (397 / 4)"
      "next_rising toy_ephemeris (toy_observer 100) Sun = Some (401 / 4)"
      "previous_setting toy_ephemeris (toy_observer 100) Sun = Some (399 / 4)"
      "next_setting toy_ephemeris (toy_observer 100) Sun = Some (403 / 4)"
    by (simp_all add: toy_sel toy_observer_simps)
  have n: "nearest_time 100 (397 / 4) (401 / 4) = 1 / 4"
      "nearest_time (1 / 4) (399 / 4) (403 / 4) = 199 / 2"
    by (simp_all add: nearest_time_def)
  have "find_rise_set toy_ephemeris (toy_observer 100) Sun None =
       Some ([(''rise'', 1 / 4), (''set'', 199 / 2)], toy_observer (199 / 2))"
    by (simp add: toy_find_rise_set nearest_time_def pymod_def Let_def)
  then have f: "find_rise_set toy_ephemeris (toy_observer 0) Sun (Some 100) =
       Some ([(''rise'', 1 / 4), (''set'', 199 / 2)], toy_observer (199 / 2))"
    by (simp add: find_rise_set_at_date toy_observer_simps)
  have a: "compute_az toy_ephemeris Sun (toy_observer (401 / 4)) / degree = 401 / 4"
      "compute_az toy_ephemeris Sun (toy_observer (399 / 4)) / degree = 399 / 4"
    by (simp_all add: toy_sel toy_observer_simps pymod_def degree_nz)
  show ?thesis
    using p n f a by simp
qed

text \<open>
  C2. Evaluated on the sample provider for the year 1899, whose instants are negative.
  The forward chain from the first of January would be \<open>- 280\<close>, \<open>- 190\<close>, \<open>- 100\<close>,
  \<open>- 10\<close>. \<open>find_azimuths\<close> leaves the observer's date at what \<open>find_rise_set\<close> wrote
  last, and the next season is computed from that date: the four instants the table is
  built at are \<open>- 280\<close>, 350, 440 and 530.
\<close>

theorem seasonal_chain_from_mutated_date:
  "seasonal_azimuths toy_ephemeris (\<lambda>k. 46000) 2026 (toy_observer 46000) (Some 1899) =
     Some ([(''vernal equinox'',
              [(''sun'', [(''rise'', 1 / 4), (''set'', 559 / 2)]),
               (''full moon'', [(''rise'', 1 / 4), (''set'', 569 / 2)])]),
            (''summer solstice'',
              [(''sun'', [(''rise'', 1 / 4), (''set'', 699 / 2)]),
               (''full moon'', [(''rise'', 1 / 4), (''set'', 29 / 2)])]),
            (''autumnal equinox'',
              [(''sun'', [(''rise'', 1 / 4), (''set'', 159 / 2)]),
               (''full moon'', [(''rise'', 1 / 4), (''set'', 209 / 2)])]),
            (''winter solstice'',
              [(''sun'', [(''rise'', 1 / 4), (''set'', 339 / 2)]),
               (''full moon'', [(''rise'', 1 / 4), (''set'', 389 / 2)])])],
           [- 280, 350, 440, 530], toy_observer (1109 / 2))
   \<and> next_equinox toy_ephemeris (Date_jan1 toy_ephemeris 1899) = - 280
   \<and> next_solstice toy_ephemeris (- 280) = - 190
   \<and> next_equinox toy_ephemeris (- 190) = - 100
   \<and> next_solstice toy_ephemeris (- 100) = - 10"
  by (simp add: seasonal_azimuths_def toy_sel toy_observer_simps toy_azimuths_at)

text \<open>
  C4. When \<open>find_azimuths\<close> returns, the moon's entry is \<open>find_rise_set\<close> with the
  observer's date set to a full moon that is the previous or the next one relative to
  the observer's date as the sun's \<open>find_rise_set\<close> left it, and of those two it is one
  nearest the wall clock \<open>now\<close> (given that the provider's previous full moon is not
  after its next one). The instant the season started from plays no part in the choice.
\<close>

theorem full_moon_nearest_now:
  assumes "\<And>t. previous_full_moon e t \<le> next_full_moon e t"
    and "find_azimuths e now observer = Some (riseset, observer')"
  shows "\<exists>sun moon ob1 full.
           find_rise_set e observer Sun None = Some (sun, ob1)
         \<and> (full = previous_full_moon e (date ob1) \<or> full = next_full_moon e (date ob1))
         \<and> \<bar>now - full\<bar> \<le> \<bar>now - previous_full_moon e (date ob1)\<bar>
         \<and> \<bar>now - full\<bar> \<le> \<bar>now - next_full_moon e (date ob1)\<bar>
         \<and> find_rise_set e (ob1\<lparr>date := full\<rparr>) Moon None = Some (moon, observer')
         \<and> riseset = [(''sun'', sun), (''full moon'', moon)]"
proof -
  from assms(2) obtain sun ob1 moon where
    s: "find_rise_set e observer Sun None = Some (sun, ob1)" and
    m: "find_rise_set e
       (ob1\<lparr>date := (if now - previous_full_moon e (date ob1) > next_full_moon e (date ob1) - now
                      then next_full_moon e (date ob1) else previous_full_moon e (date ob1))\<rparr>)
       Moon None = Some (moon, observer')" and
    r: "riseset = [(''sun'', sun), (''full moon'', moon)]"
    by (rule find_azimuths_result)
  define full where
    "full = (if now - previous_full_moon e (date ob1) > next_full_moon e (date ob1) - now
             then next_full_moon e (date ob1) else previous_full_moon e (date ob1))"
  have c: "full = previous_full_moon e (date ob1) \<or> full = next_full_moon e (date ob1)"
    by (simp add: full_def)
  have n: "\<bar>now - full\<bar> \<le> \<bar>now - previous_full_moon e (date ob1)\<bar>
            \<and> \<bar>now - full\<bar> \<le> \<bar>now - next_full_moon e (date ob1)\<bar>"
    using assms(1)[of "date ob1"] unfolding full_def by (simp add: abs_if)
  show ?thesis
    using s m r c n unfolding full_def[symmetric] by blast
qed

text \<open>
  On the sample provider, a season starting at instant 80 with the wall clock at 46000:
  the full moons around the observer's date are 75 and 105, the one nearer the season's
  instant is 75, and the moon is resolved at 105, the one nearer the wall clock.
\<close>

theorem full_moon_nearest_now_witness:
  "(\<forall>t. previous_full_moon toy_ephemeris t \<le> next_full_moon toy_ephemeris t)
   \<and> find_azimuths toy_ephemeris 46000 (toy_observer 80) =
       Some ([(''sun'', [(''rise'', 1 / 4), (''set'', 159 / 2)]),
              (''full moon'', [(''rise'', 1 / 4), (''set'', 209 / 2)])], toy_observer (209 / 2))
   \<and> (\<exists>full. (full = 75 \<or> full = 105)
         \<and> \<bar>46000 - full\<bar> \<le> \<bar>46000 - 75\<bar> \<and> \<bar>46000 - full\<bar> \<le> \<bar>46000 - 105\<bar>
         \<and> find_rise_set toy_ephemeris (toy_observer full) Moon None =
             Some ([(''rise'', 1 / 4), (''set'', 209 / 2)], toy_observer (209 / 2)))
   \<and> \<bar>80 - 75\<bar> < \<bar>80 - (105::real)\<bar>"
proof -
  have h1: "previous_full_moon toy_ephemeris t \<le> next_full_moon toy_ephemeris t" for t
    by (simp add: toy_sel)
  have h2: "find_azimuths toy_ephemeris 46000 (toy_observer 80) =
       Some ([(''sun'', [(''rise'', 1 / 4), (''set'', 159 / 2)]),
              (''full moon'', [(''rise'', 1 / 4), (''set'', 209 / 2)])], toy_observer (209 / 2))"
    by (rule toy_azimuths_at)
  from full_moon_nearest_now[OF h1 h2] obtain sun moon ob1 full where
    a: "find_rise_set toy_ephemeris (toy_observer 80) Sun None = Some (sun, ob1)" and
    b: "full = previous_full_moon toy_ephemeris (date ob1)
        \<or> full = next_full_moon toy_ephemeris (date ob1)" and
    c: "\<bar>46000 - full\<bar> \<le> \<bar>46000 - previous_full_moon toy_ephemeris (date ob1)\<bar>"
       "\<bar>46000 - full\<bar> \<le> \<bar>46000 - next_full_moon toy_ephemeris (date ob1)\<bar>" and
    d: "find_rise_set toy_ephemeris (ob1\<lparr>date := full\<rparr>) Moon None
          = Some (moon, toy_observer (209 / 2))" and
    e: "[(''sun'', [(''rise'', 1 / 4), (''set'', 159 / 2)]),
         (''full moon'', [(''rise'', 1 / 4), (''set'', 209 / 2)])]
        = [(''sun'', sun), (''full moon'', moon)]"
    by blast
  from a have ob1: "ob1 = toy_observer (159 / 2)"
    by (simp add: toy_rise_set_at)
  have fm: "previous_full_moon toy_ephemeris (159 / 2) = 75"
           "next_full_moon toy_ephemeris (159 / 2) = 105"
    by (simp_all add: toy_sel)
  from e have moon: "moon = [(''rise'', 1 / 4), (''set'', 209 / 2)]" by simp
  have "(full = 75 \<or> full = 105)
         \<and> \<bar>46000 - full\<bar> \<le> \<bar>46000 - 75\<bar> \<and> \<bar>46000 - full\<bar> \<le> \<bar>46000 - 105\<bar>
         \<and> find_rise_set toy_ephemeris (toy_observer full) Moon None =
             Some ([(''rise'', 1 / 4), (''set'', 209 / 2)], toy_observer (209 / 2))"
    using b c d unfolding ob1 toy_observer_simps fm moon by blast
  then show ?thesis
    using h1 h2 by auto
qed

text \<open>
  C9. Whenever the provider reports azimuths as angles in \<open>[0, 2 pi)\<close> and
  \<open>find_rise_set\<close> returns, its result holds exactly a rise and a set azimuth, both in
  \<open>[0, 360)\<close> degrees.
\<close>

theorem resolver_azimuth_range:
  assumes "\<And>b ob. 0 \<le> compute_az e b ob \<and> compute_az e b ob < 2 * pi"
    and "find_rise_set e observer obj d = Some (riseset, observer')"
  shows "\<exists>rise_az set_az. riseset = [(''rise'', rise_az), (''set'', set_az)]
           \<and> 0 \<le> rise_az \<and> rise_az < 360 \<and> 0 \<le> set_az \<and> set_az < 360"
proof -
  from find_rise_set_result[OF assms(2)] obtain ob1 ob2 where
    r: "riseset = [(''rise'', compute_az e obj ob1 / degree),
                   (''set'', compute_az e obj ob2 / degree)]"
    by blast
  show ?thesis
    using r in_degrees assms(1) by blast
qed

theorem resolver_azimuth_range_witness:
  "(\<forall>b ob. 0 \<le> compute_az toy_ephemeris b ob \<and> compute_az toy_ephemeris b ob < 2 * pi)
   \<and> find_rise_set toy_ephemeris (toy_observer 350) Sun None =
       Some ([(''rise'', 1 / 4), (''set'', 699 / 2)], toy_observer (699 / 2))
   \<and> (\<exists>rise_az set_az.
         [(''rise'', 1 / 4), (''set'', 699 / 2)] = [(''rise'', rise_az), (''set'', set_az)]
         \<and> 0 \<le> rise_az \<and> rise_az < 360 \<and> 0 \<le> set_az \<and> set_az < (360::real))"
proof -
  have h2: "find_rise_set toy_ephemeris (toy_observer 350) Sun None =
       Some ([(''rise'', 1 / 4), (''set'', 699 / 2)], toy_observer (699 / 2))"
    by (rule toy_rise_set_at)
  show ?thesis
    using resolver_azimuth_range[OF toy_az_range h2] toy_az_range h2 by blast
qed

section \<open>The loader and the run\<close>

lemma get_DOM_text_no_child:
  "cn \<noteq> [] \<Longrightarrow> getElementsByTagName node cn = [] \<Longrightarrow> get_DOM_text node (Some cn) = None"
  by (simp add: get_DOM_text_def)

lemma wpt_loop_result:
  assumes "\<And>pt. pt \<in> set pts \<Longrightarrow>
      pyfloat (getAttribute pt ''lat'') \<noteq> None \<and> pyfloat (getAttribute pt ''lon'') \<noteq> None"
  shows "\<exists>observer' rest.
      wpt_loop pyfloat pts observer waypoints pointno = Inr (observer', waypoints @ rest)
    \<and> length rest = length pts
    \<and> (\<forall>i<length pts.
          pyfloat (getAttribute (pts ! i) ''lat'') = Some (wp_lat (rest ! i))
        \<and> pyfloat (getAttribute (pts ! i) ''lon'') = Some (wp_lon (rest ! i))
        \<and> wp_ele (rest ! i) =
            (case get_DOM_text (pts ! i) (Some ''ele'') of
               None \<Rightarrow> 500
             | Some s \<Rightarrow> (case pyfloat s of None \<Rightarrow> 500 | Some v \<Rightarrow> v)))"
  using assms
proof (induction pts arbitrary: observer waypoints pointno)
  case Nil
  then show ?case by simp
next
  case (Cons pt pts)
  from Cons.prems[of pt] obtain la lo where
    la: "pyfloat (getAttribute pt ''lat'') = Some la" and
    lo: "pyfloat (getAttribute pt ''lon'') = Some lo"
    by auto
  define ele where "ele = (case get_DOM_text pt (Some ''ele'') of
               None \<Rightarrow> 500
             | Some s \<Rightarrow> (case pyfloat s of None \<Rightarrow> (500::real) | Some v \<Rightarrow> v))"
  obtain observer1 name1 pointno1 where
    step: "wpt_loop pyfloat (pt # pts) observer waypoints pointno =
       wpt_loop pyfloat pts observer1
         (waypoints @ [\<lparr>wp_name = name1, wp_lat = la, wp_lon = lo, wp_ele = ele\<rparr>]) pointno1"
    by (simp add: la lo Let_def ele_def)
  have "\<And>p. p \<in> set pts \<Longrightarrow>
      pyfloat (getAttribute p ''lat'') \<noteq> None \<and> pyfloat (getAttribute p ''lon'') \<noteq> None"
    using Cons.prems by simp
  from Cons.IH[OF this, of observer1
      "waypoints @ [\<lparr>wp_name = name1, wp_lat = la, wp_lon = lo, wp_ele = ele\<rparr>]" pointno1]
  obtain observer' rest where
    r: "wpt_loop pyfloat pts observer1
         (waypoints @ [\<lparr>wp_name = name1, wp_lat = la, wp_lon = lo, wp_ele = ele\<rparr>]) pointno1
        = Inr (observer', (waypoints @ [\<lparr>wp_name = name1, wp_lat = la, wp_lon = lo, wp_ele = ele\<rparr>]) @ rest)"
    and l: "length rest = length pts"
    and e: "\<forall>i<length pts.
          pyfloat (getAttribute (pts ! i) ''lat'') = Some (wp_lat (rest ! i))
        \<and> pyfloat (getAttribute (pts ! i) ''lon'') = Some (wp_lon (rest ! i))
        \<and> wp_ele (rest ! i) =
            (case get_DOM_text (pts ! i) (Some ''ele'') of
               None \<Rightarrow> 500
             | Some s \<Rightarrow> (case pyfloat s of None \<Rightarrow> 500 | Some v \<Rightarrow> v))"
    by blast
  let ?rest = "\<lparr>wp_name = name1, wp_lat = la, wp_lon = lo, wp_ele = ele\<rparr> # rest"
  have "wpt_loop pyfloat (pt # pts) observer waypoints pointno = Inr (observer', waypoints @ ?rest)"
    using step r by simp
  moreover have "length ?rest = length (pt # pts)" using l by simp
  moreover have "\<forall>i<length (pt # pts).
          pyfloat (getAttribute ((pt # pts) ! i) ''lat'') = Some (wp_lat (?rest ! i))
        \<and> pyfloat (getAttribute ((pt # pts) ! i) ''lon'') = Some (wp_lon (?rest ! i))
        \<and> wp_ele (?rest ! i) =
            (case get_DOM_text ((pt # pts) ! i) (Some ''ele'') of
               None \<Rightarrow> 500
             | Some s \<Rightarrow> (case pyfloat s of None \<Rightarrow> 500 | Some v \<Rightarrow> v))"
  proof (intro allI impI)
    fix i assume "i < length (pt # pts)"
    then show "pyfloat (getAttribute ((pt # pts) ! i) ''lat'') = Some (wp_lat (?rest ! i))
        \<and> pyfloat (getAttribute ((pt # pts) ! i) ''lon'') = Some (wp_lon (?rest ! i))
        \<and> wp_ele (?rest ! i) =
            (case get_DOM_text ((pt # pts) ! i) (Some ''ele'') of
               None \<Rightarrow> 500
             | Some s \<Rightarrow> (case pyfloat s of None \<Rightarrow> 500 | Some v \<Rightarrow> v))"
      using e la lo by (cases i) (simp_all add: ele_def)
  qed
  ultimately show ?case by blast
qed

text \<open>
  What the loop does give. For a document with at least one \<^verbatim>\<open><wpt>\<close> whose \<^verbatim>\<open>lat\<close> and \<^verbatim>\<open>lon\<close>
  attributes all read as floats, the loader returns, with one waypoint per \<^verbatim>\<open><wpt>\<close>
  in document order carrying the parsed latitude and longitude; and wherever the element
  has no \<^verbatim>\<open><ele>\<close> below it, or \<open>get_DOM_text\<close> finds no text in it, or the text is
  not a float, the waypoint's elevation is 500.
\<close>

lemma missing_elevation_defaults:
  assumes "getElementsByTagName document ''wpt'' = wpts" and "wpts \<noteq> []"
    and "\<And>pt. pt \<in> set wpts \<Longrightarrow>
      pyfloat (getAttribute pt ''lat'') \<noteq> None \<and> pyfloat (getAttribute pt ''lon'') \<noteq> None"
  shows "\<exists>observer waypoints.
      read_track_file_GPX pyfloat document = Inr (ObserverWaypoints observer waypoints)
    \<and> length waypoints = length wpts
    \<and> (\<forall>i<length wpts.
          pyfloat (getAttribute (wpts ! i) ''lat'') = Some (wp_lat (waypoints ! i))
        \<and> pyfloat (getAttribute (wpts ! i) ''lon'') = Some (wp_lon (waypoints ! i))
        \<and> (getElementsByTagName (wpts ! i) ''ele'' = []
             \<or> get_DOM_text (wpts ! i) (Some ''ele'') = None
             \<or> (\<exists>s. get_DOM_text (wpts ! i) (Some ''ele'') = Some s \<and> pyfloat s = None)
            \<longrightarrow> wp_ele (waypoints ! i) = 500))"
proof -
  from wpt_loop_result[where pts=wpts and pyfloat=pyfloat and observer=None and waypoints="[]" and pointno=0, OF assms(3)] obtain observer rest where
    r: "wpt_loop pyfloat wpts None [] 0 = Inr (observer, rest)"
    and l: "length rest = length wpts"
    and e: "\<forall>i<length wpts.
          pyfloat (getAttribute (wpts ! i) ''lat'') = Some (wp_lat (rest ! i))
        \<and> pyfloat (getAttribute (wpts ! i) ''lon'') = Some (wp_lon (rest ! i))
        \<and> wp_ele (rest ! i) =
            (case get_DOM_text (wpts ! i) (Some ''ele'') of
               None \<Rightarrow> 500
             | Some s \<Rightarrow> (case pyfloat s of None \<Rightarrow> 500 | Some v \<Rightarrow> v))"
    by auto
  have ret: "read_track_file_GPX pyfloat document = Inr (ObserverWaypoints observer rest)"
    using assms(1,2) r by (simp add: read_track_file_GPX_def Let_def)
  have "\<forall>i<length wpts.
          pyfloat (getAttribute (wpts ! i) ''lat'') = Some (wp_lat (rest ! i))
        \<and> pyfloat (getAttribute (wpts ! i) ''lon'') = Some (wp_lon (rest ! i))
        \<and> (getElementsByTagName (wpts ! i) ''ele'' = []
             \<or> get_DOM_text (wpts ! i) (Some ''ele'') = None
             \<or> (\<exists>s. get_DOM_text (wpts ! i) (Some ''ele'') = Some s \<and> pyfloat s = None)
            \<longrightarrow> wp_ele (rest ! i) = 500)"
    using e get_DOM_text_no_child[of "''ele''"] by (auto split: option.splits)
  then show ?thesis using ret l by blast
qed


lemma gpx_two_wpts:
  "getElementsByTagName gpx_two ''wpt'' =
     [Element ''wpt'' [(''lat'', ''34.80''), (''lon'', ''-103.20'')]
        [Element ''name'' [] [Text ''A'']],
      Element ''wpt'' [(''lat'', ''34.80''), (''lon'', ''-103.20'')]
        [Element ''ele'' [] [Text ''high'']]]"
  by (simp add: gpx_two_def)

lemma gpx_two_loaded:
  "read_track_file_GPX toy_float gpx_two =
     Inr (ObserverWaypoints None
       [\<lparr>wp_name = ''A'', wp_lat = 174 / 5, wp_lon = - 516 / 5, wp_ele = 500\<rparr>,
        \<lparr>wp_name = ''Point 1'', wp_lat = 174 / 5, wp_lon = - 516 / 5, wp_ele = 500\<rparr>])"
  by (simp add: read_track_file_GPX_def gpx_two_wpts get_DOM_text_def toy_float_def lower_def
      Let_def)

text \<open>On the sample document: the first \<^verbatim>\<open><wpt>\<close> has no \<^verbatim>\<open><ele>\<close>, the second one
  that reads \<^verbatim>\<open>high\<close>; both waypoints are returned with elevation 500.\<close>

lemma missing_elevation_defaults_on_sample:
  "\<exists>observer waypoints.
      read_track_file_GPX toy_float gpx_two = Inr (ObserverWaypoints observer waypoints)
    \<and> length waypoints = 2
    \<and> wp_lat (waypoints ! 0) = 174 / 5 \<and> wp_lon (waypoints ! 0) = - 516 / 5
    \<and> wp_ele (waypoints ! 0) = 500
    \<and> wp_lat (waypoints ! 1) = 174 / 5 \<and> wp_lon (waypoints ! 1) = - 516 / 5
    \<and> wp_ele (waypoints ! 1) = 500"
proof -
  let ?pt0 = "Element ''wpt'' [(''lat'', ''34.80''), (''lon'', ''-103.20'')]
        [Element ''name'' [] [Text ''A'']]"
  let ?pt1 = "Element ''wpt'' [(''lat'', ''34.80''), (''lon'', ''-103.20'')]
        [Element ''ele'' [] [Text ''high'']]"
  have ne: "[?pt0, ?pt1] \<noteq> []" by simp
  have coords: "toy_float (getAttribute pt ''lat'') \<noteq> None
      \<and> toy_float (getAttribute pt ''lon'') \<noteq> None" if "pt \<in> set [?pt0, ?pt1]" for pt
  proof -
    from that have "pt = ?pt0 \<or> pt = ?pt1" by simp
    then show ?thesis by (elim disjE) (simp_all add: toy_float_def)
  qed
  from missing_elevation_defaults[OF gpx_two_wpts ne coords] obtain observer waypoints where
    r: "read_track_file_GPX toy_float gpx_two = Inr (ObserverWaypoints observer waypoints)"
    and l: "length waypoints = length [?pt0, ?pt1]"
    and e: "\<forall>i<length [?pt0, ?pt1].
          toy_float (getAttribute ([?pt0, ?pt1] ! i) ''lat'') = Some (wp_lat (waypoints ! i))
        \<and> toy_float (getAttribute ([?pt0, ?pt1] ! i) ''lon'') = Some (wp_lon (waypoints ! i))
        \<and> (getElementsByTagName ([?pt0, ?pt1] ! i) ''ele'' = []
             \<or> get_DOM_text ([?pt0, ?pt1] ! i) (Some ''ele'') = None
             \<or> (\<exists>s. get_DOM_text ([?pt0, ?pt1] ! i) (Some ''ele'') = Some s \<and> toy_float s = None)
            \<longrightarrow> wp_ele (waypoints ! i) = 500)"
    by blast
  from e[rule_format, of 0] have e0:
    "wp_lat (waypoints ! 0) = 174 / 5 \<and> wp_lon (waypoints ! 0) = - 516 / 5
     \<and> wp_ele (waypoints ! 0) = 500"
    by (simp add: toy_float_def)
  from e[rule_format, of 1] have e1:
    "wp_lat (waypoints ! 1) = 174 / 5 \<and> wp_lon (waypoints ! 1) = - 516 / 5
     \<and> wp_ele (waypoints ! 1) = 500"
    by (simp add: toy_float_def get_DOM_text_def)
  show ?thesis
    using r l e0 e1 by auto
qed

text \<open>
  C10. Evaluated on a \<^verbatim>\<open><wpt>\<close> with no \<^verbatim>\<open><ele>\<close> child and an \<^verbatim>\<open><ele>\<close> nested
  inside its \<^verbatim>\<open><extensions>\<close>: \<open>get_DOM_text\<close>, whose docstring speaks of a child
  node, looks the name up with \<^verbatim>\<open>getElementsByTagName\<close>, which searches all descendants,
  so it returns the nested text and the waypoint's elevation is 1650, not the default 500.
\<close>

theorem nested_ele_read_as_elevation:
  "filter (tag_matches ''ele'')
     (childNodes (Element ''wpt'' [(''lat'', ''34.80''), (''lon'', ''-103.20'')]
        [Element ''extensions'' [] [Element ''ele'' [] [Text ''1650'']]])) = []
   \<and> getElementsByTagName gpx_nested ''wpt'' =
       [Element ''wpt'' [(''lat'', ''34.80''), (''lon'', ''-103.20'')]
          [Element ''extensions'' [] [Element ''ele'' [] [Text ''1650'']]]]
   \<and> get_DOM_text (Element ''wpt'' [(''lat'', ''34.80''), (''lon'', ''-103.20'')]
        [Element ''extensions'' [] [Element ''ele'' [] [Text ''1650'']]]) (Some ''ele'')
       = Some ''1650''
   \<and> read_track_file_GPX toy_float gpx_nested =
       Inr (ObserverWaypoints None
         [\<lparr>wp_name = ''Point 1'', wp_lat = 174 / 5, wp_lon = - 516 / 5, wp_ele = 1650\<rparr>])"
  by (simp add: read_track_file_GPX_def gpx_nested_def get_DOM_text_def toy_float_def lower_def
      Let_def)

lemma wpt_loop_length:
  "wpt_loop pyfloat pts observer waypoints pointno = Inr (observer', waypoints') \<Longrightarrow>
     length waypoints' = length waypoints + length pts"
proof (induction pts arbitrary: observer waypoints pointno)
  case Nil
  then show ?case by simp
next
  case (Cons pt pts)
  from Cons.prems obtain observer1 w pointno1 where
    "wpt_loop pyfloat pts observer1 (waypoints @ [w]) pointno1 = Inr (observer', waypoints')"
    by (auto simp: Let_def split: option.splits)
  from Cons.IH[OF this] show ?case by simp
qed

lemma loader_never_empty_pair:
  "read_track_file_GPX pyfloat document \<noteq> Inr (ObserverWaypoints observer [])"
proof
  assume a: "read_track_file_GPX pyfloat document = Inr (ObserverWaypoints observer [])"
  then have ne: "getElementsByTagName document ''wpt'' \<noteq> []"
    by (auto simp: read_track_file_GPX_def Let_def split: if_splits)
  with a have "wpt_loop pyfloat (getElementsByTagName document ''wpt'') None [] 0
        = Inr (observer, [])"
    by (auto simp: read_track_file_GPX_def Let_def split: if_splits sum.splits)
  from wpt_loop_length[OF this] ne show False by simp
qed

lemma files_loop_prints_nothing:
  "fst (files_loop env files observerPoint waypoints out) = out"
proof (induction files arbitrary: observerPoint waypoints)
  case Nil
  then show ?case by simp
next
  case (Cons filename files)
  show ?case
  proof (cases "xml_parse env filename")
    case (Inl ex)
    then show ?thesis by simp
  next
    case (Inr document)
    show ?thesis
    proof (cases "read_track_file_GPX (py_float env) document")
      case (Inl ex)
      then show ?thesis using Inr by simp
    next
      case r: (Inr res)
      show ?thesis
      proof (cases res)
        case EmptyList
        then show ?thesis using Inr r by simp
      next
        case (ObserverWaypoints obs wp)
        then have "wp \<noteq> []" using r loader_never_empty_pair by metis
        then show ?thesis using Inr r ObserverWaypoints Cons.IH by (simp add: Let_def)
      qed
    qed
  qed
qed

text \<open>
  C3. Evaluated on a document with no \<^verbatim>\<open><wpt>\<close>: the loader returns the empty list,
  and the run, whatever the rest of its environment, ends at the first file with
  \<^verbatim>\<open>ValueError\<close> raised by the unpacking, having printed nothing: neither the line
  about the file nor the help, and not through \<^verbatim>\<open>sys.exit(1)\<close>. The provider is never
  consulted. In no run at all is the line \<^verbatim>\<open>No waypoints in\<close> printed, since the loader
  never returns a pair with an empty list.
\<close>

theorem empty_file_raises_value_error:
  "getElementsByTagName gpx_empty ''wpt'' = []
   \<and> read_track_file_GPX pf gpx_empty = Inr EmptyList
   \<and> main (env\<lparr>xml_parse := \<lambda>f. Inr gpx_empty\<rparr>) observerPoint (filename # files)
       = ([], Raised ValueError)
   \<and> NoWaypointsIn name \<notin> set (fst (main env' observerPoint' files'))"
proof -
  have w: "getElementsByTagName gpx_empty ''wpt'' = []"
    by (simp add: gpx_empty_def)
  have r: "read_track_file_GPX pf gpx_empty = Inr EmptyList" for pf
    by (simp add: read_track_file_GPX_def w)
  have m: "main (env\<lparr>xml_parse := \<lambda>f. Inr gpx_empty\<rparr>) observerPoint (filename # files)
       = ([], Raised ValueError)"
    by (simp add: main_def r)
  obtain res where f: "files_loop env' files' observerPoint' [] [] = ([], res)"
    using files_loop_prints_nothing[of env' files' observerPoint' "[]" "[]"]
    by (cases "files_loop env' files' observerPoint' [] []") simp
  have "NoWaypointsIn name \<notin> set (fst (main env' observerPoint' files'))"
    unfolding main_def f
    by (auto simp: Let_def split: sum.splits list.splits option.splits observer_point.splits prod.splits)
  then show ?thesis using w r m by simp
qed

end
